theory Spec2Isabelle
  imports Main "HOL-Library.Word" "HOL-Library.Sublist"
begin

section \<open>TaskFlow: job model, broker, worker and submission service\<close>

text \<open>
  A shallow embedding of the job lifecycle engine of TaskFlow (Go). The sources are
  \<^verbatim>\<open>internal/types\<close> (job model, validation, retry classifier),
  \<^verbatim>\<open>internal/queue/redis.go\<close> (the broker), \<^verbatim>\<open>internal/storage/postgres.go\<close>
  (the store), \<^verbatim>\<open>internal/worker\<close> (the worker loop body) and
  \<^verbatim>\<open>internal/api/handlers.go\<close> (the cancel handler).

  Conventions of the embedding:
  \<^item> Go's \<^verbatim>\<open>int\<close> and \<^verbatim>\<open>time.Duration\<close> are 64-bit two's complement words: \<open>+\<close> and
    \<open>*\<close> wrap, comparisons are the signed ones (\<open><s\<close>, \<open>\<le>s\<close>).
  \<^item> A \<^verbatim>\<open>time.Time\<close> is an integer count of nanoseconds; every reading of
    \<^verbatim>\<open>time.Now()\<close> is an argument of the function that takes the reading.
  \<^item> A Go \<^verbatim>\<open>string\<close> or byte slice is a \<open>string\<close> (a list of 8-bit characters).
  \<^item> A Go \<^verbatim>\<open>error\<close> value is \<open>None\<close> for \<^verbatim>\<open>nil\<close> and \<open>Some e\<close> otherwise.
\<close>

type_synonym go_int = "64 word"
type_synonym duration = "64 word"
type_synonym timestamp = int

subsection \<open>Entities (internal/types)\<close>

text \<open>
  \<^verbatim>\<open>JobStatus\<close> is a string type with five constants, the only values the code ever
  assigns; \<open>JobStatus_string\<close> gives the string of each.
\<close>

datatype JobStatus =
  JobStatusPending | JobStatusProcessing | JobStatusCompleted | JobStatusFailed | JobStatusRetrying

fun JobStatus_string :: "JobStatus \<Rightarrow> string" where
  "JobStatus_string JobStatusPending = ''pending''"
| "JobStatus_string JobStatusProcessing = ''processing''"
| "JobStatus_string JobStatusCompleted = ''completed''"
| "JobStatus_string JobStatusFailed = ''failed''"
| "JobStatus_string JobStatusRetrying = ''retrying''"

type_synonym JobType = string

definition JobTypeEmail :: JobType where "JobTypeEmail = ''email''"
definition JobTypeImageResize :: JobType where "JobTypeImageResize = ''image_resize''"
definition JobTypeWebhook :: JobType where "JobTypeWebhook = ''webhook''"
definition JobTypeDataExport :: JobType where "JobTypeDataExport = ''data_export''"

record Job =
  ID :: string
  Type :: JobType
  Payload :: string
  Status :: JobStatus
  Result :: string
  Error :: string
  Attempts :: go_int
  MaxAttempts :: go_int
  CreatedAt :: timestamp
  UpdatedAt :: timestamp
  ScheduledAt :: timestamp
  StartedAt :: "timestamp option"
  CompletedAt :: "timestamp option"
  WorkerID :: string

text \<open>The request's fields carry the prefix \<open>Req\<close>: a record field is a global name.\<close>

record JobRequest =
  ReqType :: JobType
  ReqPayload :: string
  ReqMaxAttempts :: go_int
  ReqScheduledAt :: "timestamp option"

subsection \<open>Payload schemas (internal/types/payloads.go)\<close>

text \<open>
  Fields of the open types \<^verbatim>\<open>interface{}\<close> and \<^verbatim>\<open>map[string]interface{}\<close> are kept as
  their JSON text; \<^verbatim>\<open>map[string]string\<close> is an association list.
\<close>

record EmailPayload =
  To :: string
  CC :: "string list"
  BCC :: "string list"
  Subject :: string
  Body :: string
  HTML :: bool
  EmailHeaders :: "(string \<times> string) list"

record ImageResizePayload =
  ImageURL :: string
  Sizes :: "go_int list"
  ImageFormat :: string
  Quality :: go_int
  ImageOutputPath :: string
  PreserveMeta :: bool

record WebhookPayload =
  URL :: string
  Method :: string
  WebhookHeaders :: "(string \<times> string) list"
  Data :: string
  Timeout :: go_int

record DataExportPayload =
  ExportType :: string
  Query :: string
  ExportFormat :: string
  ExportOutputPath :: string
  Filters :: string

subsection \<open>NewJob\<close>

text \<open>
  \<open>now\<close> is the reading of \<^verbatim>\<open>time.Now()\<close> and \<open>newID\<close> the value of
  \<^verbatim>\<open>GenerateJobID()\<close> (16 random bytes in hexadecimal).
\<close>

definition NewJob :: "JobRequest \<Rightarrow> timestamp \<Rightarrow> string \<Rightarrow> Job" where
  "NewJob req now newID =
     (let job = \<lparr> ID = newID, Type = ReqType req, Payload = ReqPayload req,
                   Status = JobStatusPending, Result = [], Error = [],
                   Attempts = 0, MaxAttempts = 3,
                   CreatedAt = now, UpdatedAt = now, ScheduledAt = now,
                   StartedAt = None, CompletedAt = None, WorkerID = [] \<rparr>;
          job = (if 0 <s ReqMaxAttempts req then job\<lparr>MaxAttempts := ReqMaxAttempts req\<rparr> else job);
          job = (case ReqScheduledAt req of
                   Some t \<Rightarrow> job\<lparr>ScheduledAt := t\<rparr>
                 | None \<Rightarrow> job)
      in job)"

subsection \<open>The retry classifier: IsRetryableError, contains, hasSubstring\<close>

text \<open>
  \<open>hasSubstring_from i s substr\<close> is the loop of \<^verbatim>\<open>hasSubstring\<close> from index \<open>i\<close> on.
  The loop bound \<^verbatim>\<open>len(s)-len(substr)\<close> is a signed subtraction: it is negative, and
  the loop body never runs, when \<open>substr\<close> is the longer string.
\<close>

function hasSubstring_from :: "nat \<Rightarrow> string \<Rightarrow> string \<Rightarrow> bool" where
  "hasSubstring_from i s substr =
     (if int i \<le> int (length s) - int (length substr)
      then (if take (length substr) (drop i s) = substr then True
            else hasSubstring_from (i + 1) s substr)
      else False)"
  by pat_completeness auto
termination
  by (relation "measure (\<lambda>(i, s, substr). Suc (length s) - i)") auto

definition hasSubstring :: "string \<Rightarrow> string \<Rightarrow> bool" where
  "hasSubstring s substr = hasSubstring_from 0 s substr"

definition contains :: "string \<Rightarrow> string \<Rightarrow> bool" where
  "contains s substr =
     (length s \<ge> length substr \<and>
      (s = substr \<or>
       (length s > length substr \<and>
        (take (length substr) s = substr \<or>
         drop (length s - length substr) s = substr \<or>
         hasSubstring s substr))))"

definition retryablePatterns :: "string list" where
  "retryablePatterns =
     [''connection refused'', ''timeout'', ''temporary failure'',
      ''network is unreachable'', ''no route to host'', ''connection reset'']"

text \<open>The \<^verbatim>\<open>for ... range\<close> loop with its early \<^verbatim>\<open>return true\<close>.\<close>

fun matchPatterns :: "string \<Rightarrow> string list \<Rightarrow> bool" where
  "matchPatterns errorString [] = False"
| "matchPatterns errorString (pattern # rest) =
     (if contains errorString pattern then True else matchPatterns errorString rest)"

text \<open>The argument is the error: \<open>None\<close> is \<^verbatim>\<open>nil\<close>, \<open>Some m\<close> an error whose
  \<^verbatim>\<open>Error()\<close> is \<open>m\<close>.\<close>

fun IsRetryableError :: "string option \<Rightarrow> bool" where
  "IsRetryableError None = False"
| "IsRetryableError (Some errorString) = matchPatterns errorString retryablePatterns"

subsection \<open>calculateRetryDelay\<close>

definition Second :: duration where "Second = 1000000000"
definition Minute :: duration where "Minute = 60 * Second"

text \<open>
  \<^verbatim>\<open>1<<uint(attempts-1)\<close> shifts the \<^verbatim>\<open>time.Duration\<close> constant 1 by an unsigned
  count: a count of 64 or more gives 0, as \<open>push_bit\<close> does on a 64-bit word.
\<close>

definition calculateRetryDelay :: "go_int \<Rightarrow> duration" where
  "calculateRetryDelay attempts =
     (let base = Second * 5;
          delay = base * push_bit (unat (attempts - 1)) 1
      in if 5 * Minute <s delay then 5 * Minute else delay)"

subsection \<open>ValidateJobRequest and validatePayloadStructure\<close>

text \<open>
  \<^verbatim>\<open>json.Unmarshal\<close> belongs to Go's standard library, not to the repository. Its
  outcome on the payload bytes, for each of the four target structs, is a parameter of the
  model: \<open>Inl e\<close> is a decoding error with message \<open>e\<close>, \<open>Inr p\<close> the filled struct
  (a field the JSON object does not mention keeps Go's zero value: the empty string, the
  empty slice).
\<close>

record json_lib =
  UnmarshalEmail :: "string \<Rightarrow> string + EmailPayload"
  UnmarshalImageResize :: "string \<Rightarrow> string + ImageResizePayload"
  UnmarshalWebhook :: "string \<Rightarrow> string + WebhookPayload"
  UnmarshalDataExport :: "string \<Rightarrow> string + DataExportPayload"

text \<open>The result is the returned \<^verbatim>\<open>error\<close>: \<open>None\<close> is \<^verbatim>\<open>nil\<close>, \<open>Some m\<close> an error
  with message \<open>m\<close>.\<close>

definition validatePayloadStructure :: "json_lib \<Rightarrow> JobType \<Rightarrow> string \<Rightarrow> string option" where
  "validatePayloadStructure js jobType payload =
     (if jobType = JobTypeEmail then
        (case UnmarshalEmail js payload of
           Inl err \<Rightarrow> Some (''invalid email payload: '' @ err)
         | Inr emailPayload \<Rightarrow>
             if To emailPayload = [] then Some ''email 'to' field is required''
             else if Subject emailPayload = [] then Some ''email 'subject' field is required''
             else None)
      else if jobType = JobTypeImageResize then
        (case UnmarshalImageResize js payload of
           Inl err \<Rightarrow> Some (''invalid image resize payload: '' @ err)
         | Inr imagePayload \<Rightarrow>
             if ImageURL imagePayload = [] then Some ''image_url is required''
             else if length (Sizes imagePayload) = 0 then Some ''at least one size is required''
             else None)
      else if jobType = JobTypeWebhook then
        (case UnmarshalWebhook js payload of
           Inl err \<Rightarrow> Some (''invalid webhook payload: '' @ err)
         | Inr webhookPayload \<Rightarrow>
             if URL webhookPayload = [] then Some ''webhook URL is required''
             else
               (let webhookPayload =
                      (if Method webhookPayload = [] then webhookPayload\<lparr>Method := ''POST''\<rparr>
                       else webhookPayload)
                in None))
      else if jobType = JobTypeDataExport then
        (case UnmarshalDataExport js payload of
           Inl err \<Rightarrow> Some (''invalid data export payload: '' @ err)
         | Inr exportPayload \<Rightarrow>
             if ExportType exportPayload = [] then Some ''export_type is required''
             else if Query exportPayload = [] then Some ''query is required''
             else None)
      else None)"

definition ValidateJobRequest :: "json_lib \<Rightarrow> JobRequest \<Rightarrow> string option" where
  "ValidateJobRequest js req =
     (if ReqType req = [] then Some ''job type is required''
      else if length (ReqPayload req) = 0 then Some ''job payload is required''
      else if \<not> (ReqType req = JobTypeEmail \<or> ReqType req = JobTypeImageResize \<or>
                  ReqType req = JobTypeWebhook \<or> ReqType req = JobTypeDataExport)
        then Some (''invalid job type: '' @ ReqType req)
      else validatePayloadStructure js (ReqType req) (ReqPayload req))"

text \<open>
  The validation table in the specification's words, on the decoded payload, for
  comparison with the code: every required field present, and for \<^verbatim>\<open>image_resize\<close> the
  sizes a non-empty list of positive integers.
\<close>

definition spec_email_ok :: "EmailPayload \<Rightarrow> bool" where
  "spec_email_ok p = (To p \<noteq> [] \<and> Subject p \<noteq> [])"

definition spec_image_resize_ok :: "ImageResizePayload \<Rightarrow> bool" where
  "spec_image_resize_ok p = (ImageURL p \<noteq> [] \<and> Sizes p \<noteq> [] \<and> list_all (\<lambda>n. 0 <s n) (Sizes p))"

definition spec_webhook_ok :: "WebhookPayload \<Rightarrow> bool" where
  "spec_webhook_ok p = (URL p \<noteq> [])"

definition spec_data_export_ok :: "DataExportPayload \<Rightarrow> bool" where
  "spec_data_export_ok p = (ExportType p \<noteq> [] \<and> Query p \<noteq> [])"

subsection \<open>The broker (internal/queue/redis.go)\<close>

text \<open>
  The Redis keys the broker uses: the list \<^verbatim>\<open>taskflow:jobs:pending\<close>, the list
  \<^verbatim>\<open>taskflow:jobs:processing\<close> (the head of a list is its left end), one string key
  \<^verbatim>\<open>taskflow:job:<id>\<close> per job (its value is the job's JSON, kept here as the job it
  encodes, under the id), and the hash \<^verbatim>\<open>taskflow:stats\<close>. The model is of a Redis that
  answers: connection failures and the 24 h expiry are not part of it; an expired or
  never written record is an absent key.
\<close>

record redis =
  pending :: "string list"
  processing :: "string list"
  jobs :: "string \<rightharpoonup> Job"
  stats :: "string \<rightharpoonup> int"

datatype error =
  JobNotFound string
| Wrapped string error

definition Set_job :: "redis \<Rightarrow> string \<Rightarrow> Job \<Rightarrow> redis" where
  "Set_job r jobID job = r\<lparr>jobs := (jobs r)(jobID \<mapsto> job)\<rparr>"

definition LPush_pending :: "redis \<Rightarrow> string \<Rightarrow> redis" where
  "LPush_pending r jobID = r\<lparr>pending := jobID # pending r\<rparr>"

text \<open>\<^verbatim>\<open>LREM key 1 v\<close> removes the first occurrence of \<open>v\<close>, from the head.\<close>

definition LRem_processing :: "redis \<Rightarrow> string \<Rightarrow> redis" where
  "LRem_processing r jobID = r\<lparr>processing := remove1 jobID (processing r)\<rparr>"

definition HIncrBy :: "redis \<Rightarrow> string \<Rightarrow> int \<Rightarrow> redis" where
  "HIncrBy r field n =
     r\<lparr>stats := (stats r)(field \<mapsto> (case stats r field of None \<Rightarrow> 0 | Some v \<Rightarrow> v) + n)\<rparr>"

text \<open>
  \<^verbatim>\<open>BRPOPLPUSH pending processing timeout\<close>: the tail of \<open>pending\<close> moves to the head of
  \<open>processing\<close>. On an empty list the command blocks and, nothing arriving, times out:
  \<open>None\<close> is that \<^verbatim>\<open>redis.Nil\<close> reply.
\<close>

definition BRPopLPush :: "redis \<Rightarrow> (string \<times> redis) option" where
  "BRPopLPush r =
     (if pending r = [] then None
      else Some (last (pending r),
                 r\<lparr>pending := butlast (pending r), processing := last (pending r) # processing r\<rparr>))"

definition EnqueueJob :: "redis \<Rightarrow> Job \<Rightarrow> error option \<times> redis" where
  "EnqueueJob r job =
     (let r = Set_job r (ID job) job;
          r = LPush_pending r (ID job);
          r = HIncrBy r ''total'' 1;
          r = HIncrBy r ''pending'' 1
      in (None, r))"

definition GetJob :: "redis \<Rightarrow> string \<Rightarrow> error + Job" where
  "GetJob r jobID = (case jobs r jobID of None \<Rightarrow> Inl (JobNotFound jobID) | Some job \<Rightarrow> Inr job)"

definition UpdateJob :: "redis \<Rightarrow> Job \<Rightarrow> error option \<times> redis" where
  "UpdateJob r job = (None, Set_job r (ID job) job)"

text \<open>
  The result pairs Go's \<^verbatim>\<open>(*Job, error)\<close> with the Redis after the call: \<open>Inl e\<close> is
  \<^verbatim>\<open>(nil, e)\<close>, \<open>Inr None\<close> is \<^verbatim>\<open>(nil, nil)\<close>, \<open>Inr (Some job)\<close> is \<^verbatim>\<open>(job, nil)\<close>.
\<close>

definition DequeueJob :: "redis \<Rightarrow> string \<Rightarrow> timestamp \<Rightarrow> (error + Job option) \<times> redis" where
  "DequeueJob r workerID now =
     (case BRPopLPush r of
        None \<Rightarrow> (Inr None, r)
      | Some (jobID, r) \<Rightarrow>
          (case GetJob r jobID of
             Inl err \<Rightarrow> (Inl err, LRem_processing r jobID)
           | Inr job \<Rightarrow>
               (let job = job\<lparr>Status := JobStatusProcessing\<rparr>;
                    job = job\<lparr>WorkerID := workerID\<rparr>;
                    job = job\<lparr>StartedAt := Some now\<rparr>;
                    job = job\<lparr>UpdatedAt := now\<rparr>
                in case UpdateJob r job of
                     (Some err, r) \<Rightarrow> (Inl (Wrapped ''failed to update job status'' err), r)
                   | (None, r) \<Rightarrow>
                       (let r = HIncrBy r ''pending'' (- 1);
                            r = HIncrBy r ''processing'' 1
                        in (Inr (Some job), r)))))"

definition CompleteJob :: "redis \<Rightarrow> string \<Rightarrow> string \<Rightarrow> timestamp \<Rightarrow> error option \<times> redis" where
  "CompleteJob r jobID result now =
     (case GetJob r jobID of
        Inl err \<Rightarrow> (Some err, r)
      | Inr job \<Rightarrow>
          (let job = job\<lparr>Status := JobStatusCompleted\<rparr>;
               job = job\<lparr>Result := result\<rparr>;
               job = job\<lparr>CompletedAt := Some now\<rparr>;
               job = job\<lparr>UpdatedAt := now\<rparr>;
               r = Set_job r (ID job) job;
               r = LRem_processing r jobID;
               r = HIncrBy r ''processing'' (- 1);
               r = HIncrBy r ''completed'' 1
           in (None, r)))"

text \<open>\<open>now\<close> is the reading of \<^verbatim>\<open>time.Now()\<close> in \<^verbatim>\<open>requeueJobWithDelay\<close>.\<close>

definition requeueJobWithDelay :: "redis \<Rightarrow> Job \<Rightarrow> duration \<Rightarrow> timestamp \<Rightarrow> error option \<times> redis" where
  "requeueJobWithDelay r job delay now =
     (let job = job\<lparr>ScheduledAt := now + sint delay\<rparr>;
          r = Set_job r (ID job) job;
          r = LPush_pending r (ID job)
      in (None, r))"

text \<open>
  \<open>now1\<close> is the first reading of \<^verbatim>\<open>time.Now()\<close> (for \<^verbatim>\<open>UpdatedAt\<close>), \<open>now2\<close> the
  second: in the retry branch the one \<^verbatim>\<open>requeueJobWithDelay\<close> takes, otherwise the one
  for \<^verbatim>\<open>CompletedAt\<close>. The retry branch returns from inside the \<^verbatim>\<open>if\<close>; the pipeline
  below it runs in the other branch only.
\<close>

definition FailJob :: "redis \<Rightarrow> string \<Rightarrow> string \<Rightarrow> timestamp \<Rightarrow> timestamp \<Rightarrow> error option \<times> redis" where
  "FailJob r jobID errorMsg now1 now2 =
     (case GetJob r jobID of
        Inl err \<Rightarrow> (Some err, r)
      | Inr job \<Rightarrow>
          (let job = job\<lparr>Attempts := Attempts job + 1\<rparr>;
               job = job\<lparr>Error := errorMsg\<rparr>;
               job = job\<lparr>UpdatedAt := now1\<rparr>
           in if Attempts job <s MaxAttempts job then
                (let job = job\<lparr>Status := JobStatusRetrying\<rparr>
                 in requeueJobWithDelay r job (calculateRetryDelay (Attempts job)) now2)
              else
                (let job = job\<lparr>Status := JobStatusFailed\<rparr>;
                     job = job\<lparr>CompletedAt := Some now2\<rparr>;
                     r = Set_job r (ID job) job;
                     r = LRem_processing r jobID;
                     r = HIncrBy r ''processing'' (- 1);
                     r = (if Status job = JobStatusFailed then HIncrBy r ''failed'' 1
                          else HIncrBy r ''pending'' 1)
                 in (None, r))))"

subsection \<open>The store (internal/storage/postgres.go)\<close>

text \<open>
  The \<^verbatim>\<open>jobs\<close> table, keyed by its primary key \<^verbatim>\<open>id\<close>. \<^verbatim>\<open>UpdateJob\<close> is an SQL
  \<^verbatim>\<open>UPDATE ... WHERE id = $1\<close> of eight columns: it changes the row with that id, and
  nothing when there is none. The \<^verbatim>\<open>workers\<close> table is not modelled.
\<close>

type_synonym storage = "string \<rightharpoonup> Job"

definition Storage_GetJob :: "storage \<Rightarrow> string \<Rightarrow> error + Job" where
  "Storage_GetJob p jobID = (case p jobID of None \<Rightarrow> Inl (JobNotFound jobID) | Some job \<Rightarrow> Inr job)"

definition Storage_UpdateJob :: "storage \<Rightarrow> Job \<Rightarrow> storage" where
  "Storage_UpdateJob p job =
     (case p (ID job) of
        None \<Rightarrow> p
      | Some row \<Rightarrow>
          p(ID job \<mapsto> row\<lparr>Status := Status job, Result := Result job, Error := Error job,
                              Attempts := Attempts job, UpdatedAt := UpdatedAt job,
                              StartedAt := StartedAt job, CompletedAt := CompletedAt job,
                              WorkerID := WorkerID job\<rparr>))"

subsection \<open>The worker's loop body (internal/worker)\<close>

text \<open>
  \<open>ProcessJob\<close> is the registry's dispatch to a handler: \<open>Inl m\<close> is an error with
  message \<open>m\<close>, \<open>Inr res\<close> the result bytes. The readings of the clock are \<open>tLease\<close>
  (in \<^verbatim>\<open>DequeueJob\<close>), \<open>tBrokerA\<close> and \<open>tBrokerB\<close> (in \<^verbatim>\<open>FailJob\<close>; the first also
  in \<^verbatim>\<open>CompleteJob\<close>) and \<open>tWorker\<close> (the worker's own \<^verbatim>\<open>now\<close>). An error of
  \<^verbatim>\<open>FailJob\<close> or \<^verbatim>\<open>CompleteJob\<close> is logged and dropped, as is the result of the store's
  \<^verbatim>\<open>UpdateJob\<close>; the worker's status updates go to the \<^verbatim>\<open>workers\<close> table only, and
  the test \<^verbatim>\<open>IsRetryableError(err) && job.Attempts < job.MaxAttempts\<close> guards a log line
  and nothing else.
\<close>

definition processNextJob ::
  "string \<Rightarrow> (Job \<Rightarrow> string + string) \<Rightarrow> redis \<Rightarrow> storage \<Rightarrow>
   timestamp \<Rightarrow> timestamp \<Rightarrow> timestamp \<Rightarrow> timestamp \<Rightarrow> error option \<times> redis \<times> storage" where
  "processNextJob wID ProcessJob r st tLease tBrokerA tBrokerB tWorker =
     (case DequeueJob r wID tLease of
        (Inl err, r) \<Rightarrow> (Some (Wrapped ''failed to dequeue job'' err), r, st)
      | (Inr None, r) \<Rightarrow> (None, r, st)
      | (Inr (Some job), r) \<Rightarrow>
          (case ProcessJob job of
             Inl errMsg \<Rightarrow>
               (let r = snd (FailJob r (ID job) errMsg tBrokerA tBrokerB);
                    job = job\<lparr>Status := JobStatusFailed\<rparr>;
                    job = job\<lparr>Error := errMsg\<rparr>;
                    job = job\<lparr>Attempts := Attempts job + 1\<rparr>;
                    job = job\<lparr>UpdatedAt := tWorker\<rparr>;
                    job = (if MaxAttempts job \<le>s Attempts job
                           then job\<lparr>CompletedAt := Some tWorker\<rparr> else job);
                    st = Storage_UpdateJob st job
                in (None, r, st))
           | Inr res \<Rightarrow>
               (let r = snd (CompleteJob r (ID job) res tBrokerA);
                    job = job\<lparr>Status := JobStatusCompleted\<rparr>;
                    job = job\<lparr>Result := res\<rparr>;
                    job = job\<lparr>UpdatedAt := tWorker\<rparr>;
                    job = job\<lparr>CompletedAt := Some tWorker\<rparr>;
                    st = Storage_UpdateJob st job
                in (None, r, st))))"

subsection \<open>The cancel handler (internal/api/handlers.go)\<close>

text \<open>
  The HTTP response is either \<^verbatim>\<open>sendError\<close>'s (status, code, message, details) or the
  status-200 \<^verbatim>\<open>JobResponse\<close> (job, message).
\<close>

datatype response =
  SendError nat string string string
| JobResponse Job string

definition cancelJob ::
  "redis \<Rightarrow> storage \<Rightarrow> string \<Rightarrow> timestamp \<Rightarrow> timestamp \<Rightarrow> response \<times> redis \<times> storage" where
  "cancelJob r st jobID tBrokerA tBrokerB =
     (if jobID = [] then (SendError 400 ''MISSING_ID'' ''Job ID is required'' [], r, st)
      else
        (case (case GetJob r jobID of
                 Inl err \<Rightarrow> Storage_GetJob st jobID
               | Inr job \<Rightarrow> Inr job) of
           Inl err \<Rightarrow> (SendError 404 ''JOB_NOT_FOUND'' ''Job not found'' [], r, st)
         | Inr job \<Rightarrow>
             if Status job = JobStatusCompleted \<or> Status job = JobStatusFailed
             then (SendError 400 ''CANNOT_CANCEL'' ''Job cannot be cancelled''
                     (''Job is already '' @ JobStatus_string (Status job)), r, st)
             else
               (case FailJob r jobID ''Job cancelled by user'' tBrokerA tBrokerB of
                  (Some err, r) \<Rightarrow>
                    (SendError 500 ''CANCEL_ERROR'' ''Failed to cancel job'' [], r, st)
                | (None, r) \<Rightarrow>
                    (let job = job\<lparr>Status := JobStatusFailed\<rparr>;
                         job = job\<lparr>Error := ''Job cancelled by user''\<rparr>;
                         st = Storage_UpdateJob st job
                     in (JobResponse job ''Job cancelled successfully'', r, st)))))"

subsection \<open>Example states\<close>

text \<open>
  The concrete inputs of the examples below: a webhook request with \<^verbatim>\<open>max_attempts = m\<close>,
  the job \<^verbatim>\<open>NewJob\<close> makes of it at time 1, the store holding that job's row, the
  broker after \<^verbatim>\<open>EnqueueJob\<close> on an empty Redis, and the broker after a worker's
  \<^verbatim>\<open>DequeueJob\<close> at time 2.
\<close>

definition example_id :: string where
  "example_id = ''000102030405060708090a0b0c0d0e0f''"

definition example_worker :: string where
  "example_worker = ''worker-1a2b3c4d''"

definition example_request :: "go_int \<Rightarrow> JobRequest" where
  "example_request m =
     \<lparr> ReqType = JobTypeWebhook, ReqPayload = ''{\"url\": \"https://example.com/webhook\"}'',
       ReqMaxAttempts = m, ReqScheduledAt = None \<rparr>"

definition submitted_job :: "go_int \<Rightarrow> Job" where
  "submitted_job m = NewJob (example_request m) 1 example_id"

definition example_storage :: "go_int \<Rightarrow> storage" where
  "example_storage m = [example_id \<mapsto> submitted_job m]"

definition fresh_redis :: redis where
  "fresh_redis = \<lparr> pending = [], processing = [], jobs = Map.empty, stats = Map.empty \<rparr>"

definition queued_redis :: "go_int \<Rightarrow> redis" where
  "queued_redis m = snd (EnqueueJob fresh_redis (submitted_job m))"

definition leased_redis :: "go_int \<Rightarrow> redis" where
  "leased_redis m = snd (DequeueJob (queued_redis m) example_worker 2)"

definition leased_job :: "go_int \<Rightarrow> Job" where
  "leased_job m =
     (submitted_job m)\<lparr>Status := JobStatusProcessing, WorkerID := example_worker,
                       StartedAt := Some 2, UpdatedAt := 2\<rparr>"

text \<open>
  An \<^verbatim>\<open>image_resize\<close> request whose only size is \<open>-5\<close>, and a JSON library that
  decodes its payload as Go's does: into the struct with that URL and that one size.
\<close>

definition example_image_request :: JobRequest where
  "example_image_request =
     \<lparr> ReqType = JobTypeImageResize,
       ReqPayload = ''{\"image_url\": \"https://example.com/image.jpg\", \"sizes\": [-5]}'',
       ReqMaxAttempts = 0, ReqScheduledAt = None \<rparr>"

definition example_image_payload :: ImageResizePayload where
  "example_image_payload =
     \<lparr> ImageURL = ''https://example.com/image.jpg'', Sizes = [- 5], ImageFormat = [],
       Quality = 0, ImageOutputPath = [], PreserveMeta = False \<rparr>"

definition example_json_lib :: json_lib where
  "example_json_lib =
     \<lparr> UnmarshalEmail = (\<lambda>b. Inl ''not decoded''),
       UnmarshalImageResize =
         (\<lambda>b. if b = ReqPayload example_image_request then Inr example_image_payload
              else Inl ''not decoded''),
       UnmarshalWebhook = (\<lambda>b. Inl ''not decoded''),
       UnmarshalDataExport = (\<lambda>b. Inl ''not decoded'') \<rparr>"

section \<open>Properties\<close>

subsection \<open>The retry classifier matches substrings byte for byte\<close>

declare hasSubstring_from.simps [simp del]

lemma hasSubstring_from_iff:
  "hasSubstring_from i s sub \<longleftrightarrow>
     (\<exists>j. i \<le> j \<and> j + length sub \<le> length s \<and> take (length sub) (drop j s) = sub)"
proof (induction i s sub rule: hasSubstring_from.induct)
  case (1 i s substr)
  show ?case
  proof (cases "int i \<le> int (length s) - int (length substr)")
    case False
    then show ?thesis
      by (subst hasSubstring_from.simps) auto
  next
    case inside: True
    show ?thesis
    proof (cases "take (length substr) (drop i s) = substr")
      case True
      with inside show ?thesis
        by (subst hasSubstring_from.simps) (auto intro!: exI [of _ i])
    next
      case differ: False
      have "hasSubstring_from i s substr = hasSubstring_from (i + 1) s substr"
        using inside differ by (subst hasSubstring_from.simps) simp
      also have "\<dots> = (\<exists>j. i + 1 \<le> j \<and> j + length substr \<le> length s \<and>
                          take (length substr) (drop j s) = substr)"
        using 1 [OF inside differ] .
      also have "\<dots> = (\<exists>j. i \<le> j \<and> j + length substr \<le> length s \<and>
                          take (length substr) (drop j s) = substr)"
        using differ by (metis Suc_eq_plus1 Suc_leD le_neq_implies_less Suc_leI)
      finally show ?thesis .
    qed
  qed
qed

lemma sublist_iff_take_drop:
  "sublist sub s \<longleftrightarrow> (\<exists>j. j + length sub \<le> length s \<and> take (length sub) (drop j s) = sub)"
proof
  assume "sublist sub s"
  then obtain ps ss where s: "s = ps @ sub @ ss" by (auto simp: sublist_def)
  show "\<exists>j. j + length sub \<le> length s \<and> take (length sub) (drop j s) = sub"
    by (rule exI [of _ "length ps"]) (simp add: s)
next
  assume "\<exists>j. j + length sub \<le> length s \<and> take (length sub) (drop j s) = sub"
  then obtain j where j: "j + length sub \<le> length s" "take (length sub) (drop j s) = sub"
    by blast
  have "s = take j s @ take (length sub) (drop j s) @ drop (length sub) (drop j s)"
    by (metis append_take_drop_id)
  then have "s = take j s @ sub @ drop (length sub) (drop j s)" using j by simp
  then show "sublist sub s" unfolding sublist_def by blast
qed

lemma hasSubstring_sublist: "hasSubstring s sub = sublist sub s"
  by (simp add: hasSubstring_def hasSubstring_from_iff sublist_iff_take_drop)

text \<open>
  For all its case distinctions, \<^verbatim>\<open>contains\<close> is the plain test for a contiguous
  substring; nothing in it folds case.
\<close>

lemma contains_sublist: "contains s sub = sublist sub s"
proof (cases "sublist sub s")
  case True
  then have "length sub \<le> length s" by (rule sublist_length_le)
  moreover have "s = sub" if "length sub = length s"
  proof -
    from True obtain ps ss where s: "s = ps @ sub @ ss" by (auto simp: sublist_def)
    then have "length s = length ps + length sub + length ss" by simp
    with that have "ps = []" "ss = []" by simp_all
    with s show ?thesis by simp
  qed
  ultimately have "s = sub \<or> length sub < length s" by linarith
  then show ?thesis using True
    by (auto simp: contains_def hasSubstring_sublist)
next
  case False
  have "\<not> take (length sub) s = sub \<or> length s < length sub"
    using False by (metis prefix_def append_take_drop_id prefix_imp_sublist)
  moreover have "\<not> drop (length s - length sub) s = sub"
    using False by (metis suffix_def append_take_drop_id suffix_imp_sublist)
  ultimately show ?thesis using False
    by (auto simp: contains_def hasSubstring_sublist)
qed

lemma matchPatterns_iff: "matchPatterns e ps \<longleftrightarrow> (\<exists>p \<in> set ps. sublist p e)"
  by (induction ps) (auto simp: contains_sublist)

lemma IsRetryableError_Some_iff:
  "IsRetryableError (Some e) \<longleftrightarrow> (\<exists>p \<in> set retryablePatterns. sublist p e)"
  by (simp add: matchPatterns_iff)

text \<open>
  Claim C5 (the classifier matches the vocabulary case-insensitively, so that
  "Connection Refused" is retryable). The code compares bytes: the lower-case vocabulary
  word is found, its capitalised variant is not, although the comment on \<^verbatim>\<open>contains\<close>
  announces a case-insensitive check.
\<close>

theorem IsRetryableError_case_sensitive:
  "IsRetryableError (Some ''Connection Refused'') = False \<and>
   IsRetryableError (Some ''dial tcp: connection refused'') = True"
  by code_simp

text \<open>
  Claim C10: applied to the \<^verbatim>\<open>nil\<close> error the classifier answers false; no message
  exists to be inspected.
\<close>

theorem IsRetryableError_nil: "IsRetryableError None = False"
  by simp

subsection \<open>Backoff delays\<close>

lemma delay_values:
  "calculateRetryDelay 1 = 5 * Second" "calculateRetryDelay 2 = 10 * Second"
  "calculateRetryDelay 3 = 20 * Second" "calculateRetryDelay 4 = 40 * Second"
  "calculateRetryDelay 5 = 80 * Second" "calculateRetryDelay 6 = 160 * Second"
  "calculateRetryDelay 7 = 300 * Second" "calculateRetryDelay 8 = 300 * Second"
  "calculateRetryDelay 9 = 300 * Second" "calculateRetryDelay 10 = 300 * Second"
  by (simp_all add: calculateRetryDelay_def Second_def Minute_def Let_def)

text \<open>
  Claim C4: for \<open>1 \<le> k \<le> 10\<close> the delay computed for \<open>attempts = k\<close> is
  \<open>min (5 s \<cdot> 2 ^ (k - 1)) (5 min)\<close>, read as a signed count of nanoseconds; for
  \<open>k = 1, \<dots>, 10\<close> that is 5, 10, 20, 40, 80, 160, 300, 300, 300 and 300 seconds.
\<close>

theorem calculateRetryDelay_backoff:
  assumes "1 \<le> k" and "k \<le> 10"
  shows "sint (calculateRetryDelay (word_of_int k)) =
           min (sint (5 * Second) * 2 ^ nat (k - 1)) (sint (5 * Minute))
       \<and> map calculateRetryDelay [1, 2, 3, 4, 5, 6, 7, 8, 9, 10] =
           [5 * Second, 10 * Second, 20 * Second, 40 * Second, 80 * Second, 160 * Second,
            300 * Second, 300 * Second, 300 * Second, 300 * Second]"
proof -
  from assms
  have "k = 1 \<or> k = 2 \<or> k = 3 \<or> k = 4 \<or> k = 5 \<or> k = 6 \<or> k = 7 \<or> k = 8 \<or> k = 9 \<or> k = 10"
    by presburger
  then have "sint (calculateRetryDelay (word_of_int k)) =
               min (sint (5 * Second) * 2 ^ nat (k - 1)) (sint (5 * Minute))"
    by (elim disjE) (simp_all add: delay_values, simp_all add: Second_def Minute_def)
  then show ?thesis by (simp add: delay_values)
qed

theorem calculateRetryDelay_backoff_witness:
  "(1::int) \<le> 7 \<and> (7::int) \<le> 10 \<and>
   sint (calculateRetryDelay 7) = 300000000000 \<and>
   sint (calculateRetryDelay 3) = 20000000000"
  using calculateRetryDelay_backoff [of 7] calculateRetryDelay_backoff [of 3]
  by (simp add: Second_def Minute_def)

subsection \<open>NewJob\<close>

text \<open>
  Claim C9: a request whose \<^verbatim>\<open>max_attempts\<close> is zero or negative (zero is also what an
  absent field decodes to) gets the default 3, a positive one is taken as it is; the new
  job is Pending with 0 attempts, \<^verbatim>\<open>created_at = updated_at = now\<close>, and
  \<^verbatim>\<open>scheduled_at\<close> is \<open>now\<close> unless the request supplies a time.
\<close>

theorem NewJob_defaults:
  "Status (NewJob req now newID) = JobStatusPending \<and>
   Attempts (NewJob req now newID) = 0 \<and>
   CreatedAt (NewJob req now newID) = now \<and>
   UpdatedAt (NewJob req now newID) = now \<and>
   MaxAttempts (NewJob req now newID) =
     (if sint (ReqMaxAttempts req) \<le> 0 then 3 else ReqMaxAttempts req) \<and>
   ScheduledAt (NewJob req now newID) =
     (case ReqScheduledAt req of None \<Rightarrow> now | Some t \<Rightarrow> t)"
  by (simp add: NewJob_def Let_def word_sless_alt split: option.split)

subsection \<open>The example states, computed\<close>

lemmas broker_defs =
  DequeueJob_def EnqueueJob_def BRPopLPush_def GetJob_def UpdateJob_def Set_job_def
  LPush_pending_def LRem_processing_def HIncrBy_def

lemmas example_defs =
  example_id_def example_request_def submitted_job_def fresh_redis_def queued_redis_def
  example_storage_def example_worker_def NewJob_def JobTypeWebhook_def

lemma DequeueJob_queued:
  "DequeueJob (queued_redis m) example_worker 2 =
     (Inr (Some (leased_job m)),
      \<lparr> pending = [], processing = [example_id],
        jobs = [example_id \<mapsto> leased_job m],
        stats = [''total'' \<mapsto> 1, ''pending'' \<mapsto> 0, ''processing'' \<mapsto> 1] \<rparr>)"
  by (simp add: broker_defs example_defs leased_job_def Let_def fun_eq_iff split: option.split)

lemma leased_redis_eq:
  "leased_redis m =
      \<lparr> pending = [], processing = [example_id],
        jobs = [example_id \<mapsto> leased_job m],
        stats = [''total'' \<mapsto> 1, ''pending'' \<mapsto> 0, ''processing'' \<mapsto> 1] \<rparr>"
  by (simp add: leased_redis_def DequeueJob_queued)

lemma leased_job_fields:
  "ID (leased_job m) = example_id" "Attempts (leased_job m) = 0"
  "MaxAttempts (leased_job m) = (if 0 <s m then m else 3)"
  "Status (leased_job m) = JobStatusProcessing"
  "CompletedAt (leased_job m) = None"
  by (simp_all add: leased_job_def example_defs Let_def)

lemma jobs_leased_redis: "jobs (leased_redis m) example_id = Some (leased_job m)"
  by (simp add: leased_redis_eq)

subsection \<open>The broker's fail\<close>

text \<open>
  The two outcomes of \<^verbatim>\<open>FailJob\<close> on a record the broker holds, as whole-state
  equations. The retry branch writes the record and pushes the id onto \<open>pending\<close>, and
  that is all it does; the terminal branch writes the record, removes the id from
  \<open>processing\<close> and moves the two counters.
\<close>

lemma FailJob_retry:
  assumes "jobs r jobID = Some j" and "Attempts j + 1 <s MaxAttempts j"
  shows "FailJob r jobID errorMsg now1 now2 =
           (None, r\<lparr>jobs := (jobs r)(ID j \<mapsto>
                         j\<lparr>Attempts := Attempts j + 1, Error := errorMsg, UpdatedAt := now1,
                           Status := JobStatusRetrying,
                           ScheduledAt := now2 + sint (calculateRetryDelay (Attempts j + 1))\<rparr>),
                      pending := ID j # pending r\<rparr>)"
  using assms
  by (simp add: FailJob_def GetJob_def Let_def requeueJobWithDelay_def Set_job_def LPush_pending_def)

lemma FailJob_terminal:
  assumes "jobs r jobID = Some j" and "\<not> Attempts j + 1 <s MaxAttempts j"
  shows "FailJob r jobID errorMsg now1 now2 =
           (None, r\<lparr>jobs := (jobs r)(ID j \<mapsto>
                         j\<lparr>Attempts := Attempts j + 1, Error := errorMsg, UpdatedAt := now1,
                           Status := JobStatusFailed, CompletedAt := Some now2\<rparr>),
                      processing := remove1 jobID (processing r),
                      stats := (stats r)
                        (''processing'' \<mapsto> (case stats r ''processing'' of None \<Rightarrow> 0 | Some v \<Rightarrow> v) - 1,
                         ''failed'' \<mapsto> (case stats r ''failed'' of None \<Rightarrow> 0 | Some v \<Rightarrow> v) + 1)\<rparr>)"
  using assms
  by (simp add: FailJob_def GetJob_def Let_def Set_job_def LRem_processing_def HIncrBy_def)

lemma FailJob_missing:
  assumes "jobs r jobID = None"
  shows "FailJob r jobID errorMsg now1 now2 = (Some (JobNotFound jobID), r)"
  using assms by (simp add: FailJob_def GetJob_def)

lemma FailJob_status:
  assumes "jobs r jobID = Some j"
  shows "map_option Status (jobs (snd (FailJob r jobID errorMsg now1 now2)) (ID j)) =
           Some (if Attempts j + 1 <s MaxAttempts j then JobStatusRetrying else JobStatusFailed)"
  by (cases "Attempts j + 1 <s MaxAttempts j")
     (simp_all add: FailJob_retry [OF assms] FailJob_terminal [OF assms])

lemma FailJob_succeeds_iff:
  "fst (FailJob r jobID errorMsg now1 now2) = None \<longleftrightarrow> jobs r jobID \<noteq> None"
  by (auto simp: FailJob_def GetJob_def Let_def requeueJobWithDelay_def split: option.split)

lemma FailJob_retry_untouched:
  assumes "jobs r jobID = Some j" and "Attempts j + 1 <s MaxAttempts j"
  shows "processing (snd (FailJob r jobID errorMsg now1 now2)) = processing r"
    and "stats (snd (FailJob r jobID errorMsg now1 now2)) = stats r"
  by (simp_all add: FailJob_retry [OF assms])

text \<open>
  Claim C1: \<^verbatim>\<open>fail(id, error_message)\<close> on a job record \<open>j\<close> of the broker returns no
  error and writes the record with \<open>attempts + 1\<close>, the error message and
  \<^verbatim>\<open>updated_at\<close>; when the incremented attempts are (signed) less than
  \<^verbatim>\<open>max_attempts\<close> the status is Retrying and the id is pushed onto \<open>pending\<close>,
  otherwise the status is Failed, \<^verbatim>\<open>completed_at\<close> is set and \<open>pending\<close> is left alone.
  In particular the first fail of a job with \<^verbatim>\<open>max_attempts = 1\<close> ends it as Failed.
  The code writes under the id the record itself carries, \<open>ID j\<close>; for every record the
  broker has written that is the key \<open>jobID\<close> it was read from.
\<close>

theorem FailJob_decision:
  assumes "jobs r jobID = Some j"
  shows "fst (FailJob r jobID errorMsg now1 now2) = None \<and>
         jobs (snd (FailJob r jobID errorMsg now1 now2)) (ID j) =
           Some (if Attempts j + 1 <s MaxAttempts j
                 then j\<lparr>Attempts := Attempts j + 1, Error := errorMsg, UpdatedAt := now1,
                        Status := JobStatusRetrying,
                        ScheduledAt := now2 + sint (calculateRetryDelay (Attempts j + 1))\<rparr>
                 else j\<lparr>Attempts := Attempts j + 1, Error := errorMsg, UpdatedAt := now1,
                        Status := JobStatusFailed, CompletedAt := Some now2\<rparr>) \<and>
         pending (snd (FailJob r jobID errorMsg now1 now2)) =
           (if Attempts j + 1 <s MaxAttempts j then ID j # pending r else pending r) \<and>
         (MaxAttempts j = 1 \<and> Attempts j = 0 \<longrightarrow>
            map_option Status (jobs (snd (FailJob r jobID errorMsg now1 now2)) (ID j))
              = Some JobStatusFailed \<and>
            map_option CompletedAt (jobs (snd (FailJob r jobID errorMsg now1 now2)) (ID j))
              = Some (Some now2) \<and>
            pending (snd (FailJob r jobID errorMsg now1 now2)) = pending r)"
proof (cases "Attempts j + 1 <s MaxAttempts j")
  case True
  then have "\<not> (MaxAttempts j = 1 \<and> Attempts j = 0)" by auto
  with True show ?thesis by (simp add: FailJob_retry [OF assms True])
next
  case False
  then show ?thesis by (simp add: FailJob_terminal [OF assms False])
qed

theorem FailJob_decision_witness:
  "jobs (leased_redis 3) example_id = Some (leased_job 3) \<and>
   map_option Status (jobs (snd (FailJob (leased_redis 3) example_id ''boom'' 10 11)) example_id)
     = Some JobStatusRetrying \<and>
   map_option Attempts (jobs (snd (FailJob (leased_redis 3) example_id ''boom'' 10 11)) example_id)
     = Some 1 \<and>
   pending (snd (FailJob (leased_redis 3) example_id ''boom'' 10 11)) = [example_id] \<and>
   jobs (leased_redis 1) example_id = Some (leased_job 1) \<and>
   MaxAttempts (leased_job 1) = 1 \<and> Attempts (leased_job 1) = 0 \<and>
   map_option Status (jobs (snd (FailJob (leased_redis 1) example_id ''boom'' 10 11)) example_id)
     = Some JobStatusFailed \<and>
   map_option CompletedAt (jobs (snd (FailJob (leased_redis 1) example_id ''boom'' 10 11)) example_id)
     = Some (Some 11) \<and>
   pending (snd (FailJob (leased_redis 1) example_id ''boom'' 10 11)) = []"
proof -
  have a3: "Attempts (leased_job 3) + 1 <s MaxAttempts (leased_job 3)"
    by (simp add: leased_job_fields word_sless_alt)
  have a1: "MaxAttempts (leased_job 1) = 1" "Attempts (leased_job 1) = 0"
    by (simp_all add: leased_job_fields word_sless_alt)
  have p: "pending (leased_redis 3) = []" "pending (leased_redis 1) = []"
    by (simp_all add: leased_redis_eq)
  show ?thesis
    using FailJob_decision [OF jobs_leased_redis [of 3], of "''boom''" 10 11]
      FailJob_decision [OF jobs_leased_redis [of 1], of "''boom''" 10 11]
      a3 a1 p
    by (simp add: jobs_leased_redis leased_job_fields(1,2))
qed

text \<open>
  Claim C2 (in both branches of \<^verbatim>\<open>fail\<close> the id leaves \<open>processing\<close> and the
  \<open>processing\<close> counter is decremented, and the retry branch also increments the
  \<open>pending\<close> counter). On the leased example job with \<^verbatim>\<open>max_attempts = 3\<close> the code
  takes the retry branch and returns from it at once: the id is pushed onto \<open>pending\<close>
  but stays in \<open>processing\<close>, and the counters keep their values (\<open>processing\<close> 1,
  \<open>pending\<close> 0). The pipeline that removes the id and moves the counters, with its
  \<^verbatim>\<open>else\<close> arm for \<open>pending\<close>, is only reached in the terminal branch.
\<close>

theorem FailJob_retry_keeps_processing:
  "fst (FailJob (leased_redis 3) example_id ''boom'' 10 11) = None \<and>
   map_option Status (jobs (snd (FailJob (leased_redis 3) example_id ''boom'' 10 11)) example_id)
     = Some JobStatusRetrying \<and>
   pending (snd (FailJob (leased_redis 3) example_id ''boom'' 10 11)) = [example_id] \<and>
   processing (snd (FailJob (leased_redis 3) example_id ''boom'' 10 11)) = [example_id] \<and>
   stats (snd (FailJob (leased_redis 3) example_id ''boom'' 10 11)) ''processing'' = Some 1 \<and>
   stats (snd (FailJob (leased_redis 3) example_id ''boom'' 10 11)) ''pending'' = Some 0"
proof -
  have a: "Attempts (leased_job 3) + 1 <s MaxAttempts (leased_job 3)"
    by (simp add: leased_job_fields word_sless_alt)
  show ?thesis
    by (simp add: FailJob_retry [OF jobs_leased_redis a] leased_job_fields(1))
       (simp add: leased_redis_eq)
qed

subsection \<open>The broker's lease on a missing record\<close>

lemma DequeueJob_timeout:
  "pending r = [] \<Longrightarrow> DequeueJob r workerID now = (Inr None, r)"
  by (simp add: DequeueJob_def BRPopLPush_def)

text \<open>
  Claim C7 as stated (a lease that moves an id to \<open>processing\<close> and then finds no
  record returns Nil with no error, like a timeout) fails: with one id pending and no
  record for it the call returns the error "job not found", whereas the empty queue
  gives \<^verbatim>\<open>(nil, nil)\<close>.
\<close>

theorem DequeueJob_missing_record_counterexample:
  "fst (DequeueJob (fresh_redis\<lparr>pending := [example_id]\<rparr>) example_worker 2)
     = Inl (JobNotFound example_id) \<and>
   fst (DequeueJob (fresh_redis\<lparr>pending := [example_id]\<rparr>) example_worker 2) \<noteq> Inr None \<and>
   fst (DequeueJob fresh_redis example_worker 2) = Inr None"
  by (simp add: DequeueJob_def BRPopLPush_def GetJob_def LRem_processing_def fresh_redis_def)

text \<open>
  Claim C7, amended: such a lease removes the entry it has just put at the head of
  \<open>processing\<close>, so that \<open>processing\<close> and the counters are as before the call and
  only the tail of \<open>pending\<close> is gone, and it returns no job together with the error
  "job not found: id".
\<close>

theorem DequeueJob_missing_record:
  assumes "pending r \<noteq> []" and "jobs r (last (pending r)) = None"
  shows "DequeueJob r workerID now =
           (Inl (JobNotFound (last (pending r))), r\<lparr>pending := butlast (pending r)\<rparr>)"
  using assms by (simp add: DequeueJob_def BRPopLPush_def GetJob_def LRem_processing_def)

theorem DequeueJob_missing_record_witness:
  "pending (fresh_redis\<lparr>pending := [example_id]\<rparr>) \<noteq> [] \<and>
   jobs (fresh_redis\<lparr>pending := [example_id]\<rparr>)
     (last (pending (fresh_redis\<lparr>pending := [example_id]\<rparr>))) = None \<and>
   DequeueJob (fresh_redis\<lparr>pending := [example_id]\<rparr>) example_worker 2 =
     (Inl (JobNotFound example_id), fresh_redis)"
proof -
  have h: "pending (fresh_redis\<lparr>pending := [example_id]\<rparr>) \<noteq> []"
    "jobs (fresh_redis\<lparr>pending := [example_id]\<rparr>)
       (last (pending (fresh_redis\<lparr>pending := [example_id]\<rparr>))) = None"
    by (simp_all add: fresh_redis_def)
  show ?thesis
    using DequeueJob_missing_record [OF h, of example_worker 2] h
    by (simp add: fresh_redis_def)
qed

subsection \<open>The worker on a handler error\<close>

lemma Storage_UpdateJob_row:
  "Storage_UpdateJob p job (ID job) =
     map_option (\<lambda>row. row\<lparr>Status := Status job, Result := Result job, Error := Error job,
                              Attempts := Attempts job, UpdatedAt := UpdatedAt job,
                              StartedAt := StartedAt job, CompletedAt := CompletedAt job,
                              WorkerID := WorkerID job\<rparr>) (p (ID job))"
  by (simp add: Storage_UpdateJob_def split: option.split)

text \<open>
  Claim C3 as stated (the worker writes Retrying to the store when the incremented
  attempts are below \<^verbatim>\<open>max_attempts\<close>) fails: the example job with
  \<^verbatim>\<open>max_attempts = 3\<close> fails its first attempt, the broker's record becomes Retrying,
  and the row the worker writes is Failed, with \<^verbatim>\<open>completed_at\<close> unset.
\<close>

theorem processNextJob_mirror_counterexample:
  "Attempts (leased_job 3) + 1 <s MaxAttempts (leased_job 3) \<and>
   map_option Status
     (snd (snd (processNextJob example_worker (\<lambda>job. Inl ''boom'') (queued_redis 3)
                  (example_storage 3) 2 10 11 12)) example_id) = Some JobStatusFailed \<and>
   map_option CompletedAt
     (snd (snd (processNextJob example_worker (\<lambda>job. Inl ''boom'') (queued_redis 3)
                  (example_storage 3) 2 10 11 12)) example_id) = Some None \<and>
   map_option Status
     (jobs (fst (snd (processNextJob example_worker (\<lambda>job. Inl ''boom'') (queued_redis 3)
                  (example_storage 3) 2 10 11 12))) example_id) = Some JobStatusRetrying"
proof -
  have a: "Attempts (leased_job 3) + 1 <s MaxAttempts (leased_job 3)"
    by (simp add: leased_job_fields word_sless_alt)
  have d: "DequeueJob (queued_redis 3) example_worker 2 = (Inr (Some (leased_job 3)), leased_redis 3)"
    by (simp add: DequeueJob_queued leased_redis_eq)
  have run: "processNextJob example_worker (\<lambda>job. Inl ''boom'') (queued_redis 3) (example_storage 3) 2 10 11 12
     = (None, snd (FailJob (leased_redis 3) example_id ''boom'' 10 11),
        Storage_UpdateJob (example_storage 3)
          ((leased_job 3)\<lparr>Status := JobStatusFailed, Error := ''boom'', Attempts := 1, UpdatedAt := 12\<rparr>))"
    using a by (simp add: processNextJob_def d Let_def leased_job_fields word_sle_eq word_sless_alt)
  show ?thesis
    unfolding run
    using a FailJob_status [OF jobs_leased_redis [of 3], of "''boom''" 10 11]
    by (simp add: leased_job_fields Storage_UpdateJob_def example_storage_def)
qed

text \<open>
  Claim C3, amended: for a leased job whose handler returns an error the worker calls
  the broker's fail and then updates the store with the leased record changed to status
  Failed, whatever the broker decided, with the error string, the incremented attempts,
  a new \<^verbatim>\<open>updated_at\<close>, and \<^verbatim>\<open>completed_at\<close> set when the incremented attempts are
  (signed) at least \<^verbatim>\<open>max_attempts\<close>. Where the store has the job's row, the row's
  status is Failed afterwards.
\<close>

theorem processNextJob_handler_error:
  assumes "DequeueJob r wID tLease = (Inr (Some job), r1)" and "ProcessJob job = Inl errMsg"
  shows "processNextJob wID ProcessJob r st tLease tBrokerA tBrokerB tWorker =
           (None, snd (FailJob r1 (ID job) errMsg tBrokerA tBrokerB),
            Storage_UpdateJob st
              (job\<lparr>Status := JobStatusFailed, Error := errMsg, Attempts := Attempts job + 1,
                   UpdatedAt := tWorker,
                   CompletedAt := (if MaxAttempts job \<le>s Attempts job + 1 then Some tWorker
                                   else CompletedAt job)\<rparr>)) \<and>
         map_option Status
           (snd (snd (processNextJob wID ProcessJob r st tLease tBrokerA tBrokerB tWorker)) (ID job))
          = map_option (\<lambda>row. JobStatusFailed) (st (ID job))"
proof -
  let ?written = "job\<lparr>Status := JobStatusFailed, Error := errMsg, Attempts := Attempts job + 1,
                   UpdatedAt := tWorker,
                   CompletedAt := (if MaxAttempts job \<le>s Attempts job + 1 then Some tWorker
                                   else CompletedAt job)\<rparr>"
  have run: "processNextJob wID ProcessJob r st tLease tBrokerA tBrokerB tWorker =
           (None, snd (FailJob r1 (ID job) errMsg tBrokerA tBrokerB), Storage_UpdateJob st ?written)"
    using assms by (simp add: processNextJob_def Let_def)
  show ?thesis
    unfolding run using Storage_UpdateJob_row [of st ?written]
    by (simp add: option.map_comp comp_def)
qed

theorem processNextJob_handler_error_witness:
  "DequeueJob (queued_redis 1) example_worker 2 = (Inr (Some (leased_job 1)), leased_redis 1) \<and>
   map_option Status
     (snd (snd (processNextJob example_worker (\<lambda>job. Inl ''boom'') (queued_redis 1)
                  (example_storage 1) 2 10 11 12)) example_id) = Some JobStatusFailed"
proof -
  have d: "DequeueJob (queued_redis 1) example_worker 2 = (Inr (Some (leased_job 1)), leased_redis 1)"
    by (simp add: DequeueJob_queued leased_redis_eq)
  note t = processNextJob_handler_error
    [where ProcessJob = "\<lambda>job. Inl ''boom''" and errMsg = "''boom''" and st = "example_storage 1"
       and tBrokerA = 10 and tBrokerB = 11 and tWorker = 12, OF d refl, THEN conjunct2]
  have i: "ID (leased_job 1) = example_id"
    by (simp add: leased_job_fields)
  have s: "example_storage 1 example_id = Some (submitted_job 1)"
    by (simp add: example_storage_def)
  from t have "map_option Status
     (snd (snd (processNextJob example_worker (\<lambda>job. Inl ''boom'') (queued_redis 1)
                  (example_storage 1) 2 10 11 12)) example_id) = Some JobStatusFailed"
    unfolding i s by simp
  with d show ?thesis by (rule conjI)
qed


subsection \<open>The cancel handler\<close>

lemma Storage_UpdateJob_status:
  "map_option Status (Storage_UpdateJob p job (ID job)) = map_option (\<lambda>row. Status job) (p (ID job))"
  by (simp add: Storage_UpdateJob_row option.map_comp comp_def)

lemma Storage_UpdateJob_error:
  "map_option Error (Storage_UpdateJob p job (ID job)) = map_option (\<lambda>row. Error job) (p (ID job))"
  by (simp add: Storage_UpdateJob_row option.map_comp comp_def)

text \<open>
  The run of \<^verbatim>\<open>cancelJob\<close> on a job the broker holds. The broker's fail cannot miss
  the record then (\<open>FailJob_succeeds_iff\<close>).
\<close>

lemma cancelJob_on_broker_record:
  assumes "jobID \<noteq> []" and "jobs r jobID = Some j"
    and "Status j \<noteq> JobStatusCompleted" and "Status j \<noteq> JobStatusFailed"
  shows "fst (FailJob r jobID ''Job cancelled by user'' tBrokerA tBrokerB) = None \<and>
         cancelJob r st jobID tBrokerA tBrokerB =
           (JobResponse (j\<lparr>Status := JobStatusFailed, Error := ''Job cancelled by user''\<rparr>)
              ''Job cancelled successfully'',
            snd (FailJob r jobID ''Job cancelled by user'' tBrokerA tBrokerB),
            Storage_UpdateJob st (j\<lparr>Status := JobStatusFailed, Error := ''Job cancelled by user''\<rparr>)) \<and>
         map_option Status (snd (snd (cancelJob r st jobID tBrokerA tBrokerB)) (ID j))
           = map_option (\<lambda>row. JobStatusFailed) (st (ID j)) \<and>
         map_option Error (snd (snd (cancelJob r st jobID tBrokerA tBrokerB)) (ID j))
           = map_option (\<lambda>row. ''Job cancelled by user'') (st (ID j)) \<and>
         map_option Status (jobs (fst (snd (cancelJob r st jobID tBrokerA tBrokerB))) (ID j))
           = Some (if Attempts j + 1 <s MaxAttempts j then JobStatusRetrying else JobStatusFailed)"
proof -
  let ?written = "j\<lparr>Status := JobStatusFailed, Error := ''Job cancelled by user''\<rparr>"
  have ok: "fst (FailJob r jobID ''Job cancelled by user'' tBrokerA tBrokerB) = None"
    using assms(2) by (simp add: FailJob_succeeds_iff)
  then obtain r' where f: "FailJob r jobID ''Job cancelled by user'' tBrokerA tBrokerB = (None, r')"
    by (cases "FailJob r jobID ''Job cancelled by user'' tBrokerA tBrokerB") simp
  have run: "cancelJob r st jobID tBrokerA tBrokerB =
           (JobResponse ?written ''Job cancelled successfully'',
            snd (FailJob r jobID ''Job cancelled by user'' tBrokerA tBrokerB),
            Storage_UpdateJob st ?written)"
    using assms by (simp add: cancelJob_def GetJob_def f Let_def)
  have st: "map_option Status (Storage_UpdateJob st ?written (ID j))
              = map_option (\<lambda>row. JobStatusFailed) (st (ID j))"
    using Storage_UpdateJob_status [of st ?written] by simp
  have er: "map_option Error (Storage_UpdateJob st ?written (ID j))
              = map_option (\<lambda>row. ''Job cancelled by user'') (st (ID j))"
    using Storage_UpdateJob_error [of st ?written] by simp
  show ?thesis
    unfolding run using ok st er FailJob_status [OF assms(2)] by simp
qed

text \<open>
  Claim C8: a cancel request finds the job \<open>j\<close> (in the broker, else in the store), its
  status is neither Completed nor Failed, and the broker's fail succeeds. Then the
  handler answers with, and passes to the store's update, the loaded job with status
  Failed and error "Job cancelled by user", whatever the broker decided: where the store
  has the job's row its status is Failed and its error that text afterwards, while the
  broker's record is Retrying whenever \<open>attempts + 1 < max_attempts\<close>. The example is a
  leased job with 0 of 3 attempts: the store says Failed, the broker Retrying.
\<close>

theorem cancelJob_writes_Failed:
  assumes "jobID \<noteq> []"
    and "(case GetJob r jobID of Inl err \<Rightarrow> Storage_GetJob st jobID | Inr job \<Rightarrow> Inr job) = Inr j"
    and "Status j \<noteq> JobStatusCompleted" and "Status j \<noteq> JobStatusFailed"
    and "fst (FailJob r jobID ''Job cancelled by user'' tBrokerA tBrokerB) = None"
  shows "cancelJob r st jobID tBrokerA tBrokerB =
           (JobResponse (j\<lparr>Status := JobStatusFailed, Error := ''Job cancelled by user''\<rparr>)
              ''Job cancelled successfully'',
            snd (FailJob r jobID ''Job cancelled by user'' tBrokerA tBrokerB),
            Storage_UpdateJob st (j\<lparr>Status := JobStatusFailed, Error := ''Job cancelled by user''\<rparr>)) \<and>
         map_option Status (snd (snd (cancelJob r st jobID tBrokerA tBrokerB)) (ID j))
           = map_option (\<lambda>row. JobStatusFailed) (st (ID j)) \<and>
         map_option Error (snd (snd (cancelJob r st jobID tBrokerA tBrokerB)) (ID j))
           = map_option (\<lambda>row. ''Job cancelled by user'') (st (ID j)) \<and>
         map_option Status (jobs (fst (snd (cancelJob r st jobID tBrokerA tBrokerB))) (ID j))
           = Some (if Attempts j + 1 <s MaxAttempts j then JobStatusRetrying else JobStatusFailed)"
proof -
  from assms(5) obtain j' where held: "jobs r jobID = Some j'"
    by (auto simp: FailJob_succeeds_iff)
  with assms(2) have "j' = j"
    by (simp add: GetJob_def)
  with held have "jobs r jobID = Some j"
    by simp
  from cancelJob_on_broker_record [OF assms(1) this assms(3,4)] show ?thesis
    by (rule conjunct2)
qed

theorem cancelJob_writes_Failed_witness:
  "example_id \<noteq> [] \<and>
   (case GetJob (leased_redis 3) example_id of
      Inl err \<Rightarrow> Storage_GetJob (example_storage 3) example_id
    | Inr job \<Rightarrow> Inr job) = Inr (leased_job 3) \<and>
   fst (FailJob (leased_redis 3) example_id ''Job cancelled by user'' 10 11) = None \<and>
   Status (leased_job 3) \<noteq> JobStatusCompleted \<and> Status (leased_job 3) \<noteq> JobStatusFailed \<and>
   map_option Status (snd (snd (cancelJob (leased_redis 3) (example_storage 3) example_id 10 11)) example_id)
     = Some JobStatusFailed \<and>
   map_option Error (snd (snd (cancelJob (leased_redis 3) (example_storage 3) example_id 10 11)) example_id)
     = Some ''Job cancelled by user'' \<and>
   map_option Status (jobs (fst (snd (cancelJob (leased_redis 3) (example_storage 3) example_id 10 11))) example_id)
     = Some JobStatusRetrying"
proof -
  have h: "example_id \<noteq> []" "Status (leased_job 3) \<noteq> JobStatusCompleted"
    "Status (leased_job 3) \<noteq> JobStatusFailed"
    by (simp_all add: example_id_def leased_job_fields)
  have g: "(case GetJob (leased_redis 3) example_id of
              Inl err \<Rightarrow> Storage_GetJob (example_storage 3) example_id
            | Inr job \<Rightarrow> Inr job) = Inr (leased_job 3)"
    by (simp add: GetJob_def jobs_leased_redis)
  have f: "fst (FailJob (leased_redis 3) example_id ''Job cancelled by user'' 10 11) = None"
    by (simp add: FailJob_succeeds_iff jobs_leased_redis)
  note t = cancelJob_writes_Failed [OF h(1) g h(2,3) f, THEN conjunct2]
  have i: "ID (leased_job 3) = example_id"
    by (simp add: leased_job_fields)
  have s: "example_storage 3 example_id = Some (submitted_job 3)"
    by (simp add: example_storage_def)
  have a: "Attempts (leased_job 3) + 1 <s MaxAttempts (leased_job 3)"
    by (simp add: leased_job_fields word_sless_alt)
  from t have "map_option Status (snd (snd (cancelJob (leased_redis 3) (example_storage 3) example_id 10 11)) example_id)
     = Some JobStatusFailed"
   "map_option Error (snd (snd (cancelJob (leased_redis 3) (example_storage 3) example_id 10 11)) example_id)
     = Some ''Job cancelled by user''"
   "map_option Status (jobs (fst (snd (cancelJob (leased_redis 3) (example_storage 3) example_id 10 11))) example_id)
     = Some JobStatusRetrying"
    unfolding i s using a by simp_all
  with h g f show ?thesis by simp
qed

subsection \<open>Validation\<close>

lemmas JobType_defs = JobTypeEmail_def JobTypeImageResize_def JobTypeWebhook_def JobTypeDataExport_def

text \<open>
  Claim C6 as stated (for \<^verbatim>\<open>image_resize\<close> an error whenever \<^verbatim>\<open>sizes\<close> is not a
  non-empty list of positive integers) fails: the request whose sizes are \<open>[-5]\<close>
  decodes, has a URL and one size, and is accepted.
\<close>

theorem ValidateJobRequest_sizes_counterexample:
  "ReqType example_image_request = JobTypeImageResize \<and>
   UnmarshalImageResize example_json_lib (ReqPayload example_image_request) = Inr example_image_payload \<and>
   \<not> spec_image_resize_ok example_image_payload \<and>
   ValidateJobRequest example_json_lib example_image_request = None"
  by (simp add: ValidateJobRequest_def validatePayloadStructure_def JobType_defs
        example_image_request_def example_json_lib_def example_image_payload_def
        spec_image_resize_ok_def word_sless_alt)

text \<open>
  Claim C6, amended: the request is accepted exactly when the type and the payload are
  non-empty, the type is one of the four known ones, the payload decodes into that
  type's struct, and the decoded required fields are non-empty: \<^verbatim>\<open>to\<close> and
  \<^verbatim>\<open>subject\<close> for email, \<^verbatim>\<open>url\<close> for webhook, \<^verbatim>\<open>export_type\<close> and \<^verbatim>\<open>query\<close>
  for data_export (for these three the specification's table, as it is worded), and
  \<^verbatim>\<open>image_url\<close> and at least one element of \<^verbatim>\<open>sizes\<close> for image_resize (the elements
  themselves are not inspected). In every other case an error is returned.
\<close>

theorem ValidateJobRequest_ok_iff:
  "ValidateJobRequest js req = None \<longleftrightarrow>
     ReqType req \<noteq> [] \<and> ReqPayload req \<noteq> [] \<and>
     ((ReqType req = JobTypeEmail \<and>
         (\<exists>p. UnmarshalEmail js (ReqPayload req) = Inr p \<and> spec_email_ok p)) \<or>
      (ReqType req = JobTypeImageResize \<and>
         (\<exists>p. UnmarshalImageResize js (ReqPayload req) = Inr p \<and>
              ImageURL p \<noteq> [] \<and> Sizes p \<noteq> [])) \<or>
      (ReqType req = JobTypeWebhook \<and>
         (\<exists>p. UnmarshalWebhook js (ReqPayload req) = Inr p \<and> spec_webhook_ok p)) \<or>
      (ReqType req = JobTypeDataExport \<and>
         (\<exists>p. UnmarshalDataExport js (ReqPayload req) = Inr p \<and> spec_data_export_ok p)))"
  by (auto simp: ValidateJobRequest_def validatePayloadStructure_def JobType_defs Let_def
           spec_email_ok_def spec_webhook_ok_def spec_data_export_ok_def
           split: sum.splits)

end
